theory Spec2Isabelle
  imports Main "HOL-Library.Sublist" "HOL-Library.Word"
begin

section \<open>The prediction service of backend/main.py\<close>

text \<open>
  The service is a FastAPI application with two handlers, \<open>predict\<close> (POST /predict) and
  \<open>root\<close> (GET /), a CORS configuration, and two module-level objects loaded at import
  time, \<open>feature_extractor\<close> and \<open>model\<close>. The image decoder (PIL), the preprocessing
  transform and the classifier are libraries: they are parameters of the model below, each
  a function that returns its value or the exception it raises.
\<close>

subsection \<open>Exceptions\<close>

text \<open>
  An instance of Python's \<open>Exception\<close>, as \<open>except Exception\<close> catches it. What the handler
  uses of it is \<open>str(e)\<close>. \<open>AttributeError\<close> is what \<open>None.startswith\<close> raises, \<open>KeyError\<close>
  what a dictionary lookup raises on a missing key, and \<open>LibraryError\<close> stands for any
  exception raised inside a library call, carrying its string representation.
\<close>

datatype exception = AttributeError string | KeyError int | LibraryError string

definition digit :: "nat \<Rightarrow> char" where
  "digit n = ''0123456789'' ! n"

fun repr_nat :: "nat \<Rightarrow> string" where
  "repr_nat n = (if n < 10 then [digit n] else repr_nat (n div 10) @ [digit (n mod 10)])"

declare repr_nat.simps [simp del]

definition repr_int :: "int \<Rightarrow> string" where
  "repr_int k = (if k < 0 then CHR ''-'' # repr_nat (nat (- k)) else repr_nat (nat k))"

text \<open>\<open>str(e)\<close>: the message, and for a \<open>KeyError\<close> the \<open>repr\<close> of the missing key.\<close>

fun str :: "exception \<Rightarrow> string" where
  "str (AttributeError m) = m"
| "str (KeyError k) = repr_int k"
| "str (LibraryError m) = m"

text \<open>A name between single quotes, as Python's messages print it.\<close>

definition quoted :: "string \<Rightarrow> string" where
  "quoted name = [CHR 0x27] @ name @ [CHR 0x27]"

subsection \<open>Requests, handler outcomes and responses\<close>

type_synonym bytes = "8 word list"

text \<open>
  The \<open>UploadFile\<close> of a request: its declared content type, which is \<open>None\<close> when the
  multipart part declares none, and what \<open>await file.read()\<close> gives, the whole body or the
  exception of a failed read.
\<close>

record upload_file =
  content_type :: "string option"
  file_read :: "exception + bytes"

text \<open>
  A handler returns a dictionary, raises an \<open>HTTPException\<close> with a status code and a
  detail, or lets another exception escape.
\<close>

datatype outcome =
    Return "(string \<times> string) list"
  | HTTPException nat string
  | Uncaught exception

datatype body = JSON "(string \<times> string) list" | PlainText string

datatype response = Response nat body

text \<open>
  What the framework sends for each outcome: a returned dictionary is the JSON body of a
  200, an \<open>HTTPException\<close> is its status with the body \<open>{"detail": detail}\<close>, and an
  exception that escapes the handler is the server's plain 500.
\<close>

fun respond :: "outcome \<Rightarrow> response" where
  "respond (Return d) = Response 200 (JSON d)"
| "respond (HTTPException code detail) = Response code (JSON [(''detail'', detail)])"
| "respond (Uncaught e) = Response 500 (PlainText ''Internal Server Error'')"

subsection \<open>The libraries and the process state\<close>

text \<open>
  \<open>io.BytesIO(contents)\<close>: a new object for each request, with the identity Python gives it
  (its address, which its \<open>repr\<close> prints) and the bytes it holds. What the decoder is given
  is this object, so what the decoder raises may depend on the identity as well as on the
  bytes.
\<close>

datatype bytesio = BytesIO nat bytes

text \<open>
  PIL: \<open>Image.open\<close> on the buffer, and \<open>convert\<close> of an image to a mode.
\<close>

record 'img pil =
  Image_open :: "bytesio \<Rightarrow> exception + 'img"
  convert :: "'img \<Rightarrow> string \<Rightarrow> exception + 'img"

text \<open>
  The loaded classifier: its forward pass, giving the logits of the one image of the
  batch (one score for each class), and \<open>model.config.id2label\<close>.
\<close>

record ('tensor, 'score) classifier =
  forward :: "'tensor \<Rightarrow> exception + 'score list"
  id2label :: "int \<rightharpoonup> string"

text \<open>The calls a handler makes outside its own code, in the order it makes them.\<close>

datatype call =
    File_read
  | Image_open_call
  | Convert_call string
  | Feature_extractor_call
  | Model_call

text \<open>
  The state of the process: the two module-level objects, what has been printed, and the
  log of the calls made so far.
\<close>

record ('img, 'tensor, 'score) process =
  feature_extractor :: "'img \<Rightarrow> exception + 'tensor"
  model :: "('tensor, 'score) classifier"
  stdout :: "string list"
  calls :: "call list"

definition called :: "call \<Rightarrow> ('img, 'tensor, 'score) process \<Rightarrow> ('img, 'tensor, 'score) process" where
  "called c s = s\<lparr>calls := calls s @ [c]\<rparr>"

text \<open>
  The module body, lines 19 to 26: print, load the two objects (either load may raise,
  and then the import fails), print.
\<close>

definition startup ::
  "(exception + ('img \<Rightarrow> exception + 'tensor)) \<Rightarrow> (exception + ('tensor, 'score) classifier) \<Rightarrow>
   exception + ('img, 'tensor, 'score) process" where
  "startup load_feature_extractor load_model =
     (case load_feature_extractor of
        Inl e \<Rightarrow> Inl e
      | Inr fe \<Rightarrow>
          (case load_model of
             Inl e \<Rightarrow> Inl e
           | Inr m \<Rightarrow>
               Inr \<lparr>feature_extractor = fe, model = m,
                    stdout = [''Loading model...'', ''Model loaded successfully!''],
                    calls = []\<rparr>))"

subsection \<open>The CORS configuration\<close>














subsection \<open>Arg-max\<close>

text \<open>
  Modelled from the spec: \<open>outputs.logits.argmax(-1).item()\<close> is the tensor library's
  arg-max, which is not part of the repository. The spec describes it as the class index
  with the maximum score, ties resolved by the lowest index. The scan below keeps the
  first index of the best score seen so far and replaces it only by a strictly greater
  score. Scores are any linear order (floating-point NaN is outside the model). An empty
  row of logits has no arg-max and the library raises.
\<close>

fun argmax_from :: "'a::linorder \<Rightarrow> nat \<Rightarrow> nat \<Rightarrow> 'a list \<Rightarrow> nat" where
  "argmax_from best besti i [] = besti"
| "argmax_from best besti i (x # xs) =
     (if best < x then argmax_from x i (Suc i) xs else argmax_from best besti (Suc i) xs)"

definition argmax :: "'a::linorder list \<Rightarrow> exception + nat" where
  "argmax logits =
     (case logits of
        [] \<Rightarrow> Inl (LibraryError ''argmax(): Expected reduction dim 1 to have non-zero size.'')
      | x # xs \<Rightarrow> Inr (argmax_from x 0 1 xs))"

subsection \<open>The handlers\<close>

text \<open>
  The body of the \<open>try\<close> block of \<open>predict\<close>, lines 35 to 48: the first exception raised
  ends it. Each call outside the handler is logged before it is made. \<open>buffer_id\<close> is the
  identity of the \<open>io.BytesIO\<close> object that line 37 creates in this request.
\<close>

definition try_block ::
  "'img pil \<Rightarrow> upload_file \<Rightarrow> nat \<Rightarrow> ('img, 'tensor, 'score::linorder) process \<Rightarrow>
   (exception + (string \<times> string) list) \<times> ('img, 'tensor, 'score) process" where
  "try_block lib file buffer_id s0 =
     (let s1 = called File_read s0 in
      case file_read file of
        Inl e \<Rightarrow> (Inl e, s1)
      | Inr contents \<Rightarrow>
     (let s2 = called Image_open_call s1 in
      case Image_open lib (BytesIO buffer_id contents) of
        Inl e \<Rightarrow> (Inl e, s2)
      | Inr opened \<Rightarrow>
     (let s3 = called (Convert_call ''RGB'') s2 in
      case convert lib opened ''RGB'' of
        Inl e \<Rightarrow> (Inl e, s3)
      | Inr rgb \<Rightarrow>
     (let s4 = called Feature_extractor_call s3 in
      case feature_extractor s4 rgb of
        Inl e \<Rightarrow> (Inl e, s4)
      | Inr inputs \<Rightarrow>
     (let s5 = called Model_call s4 in
      case forward (model s5) inputs of
        Inl e \<Rightarrow> (Inl e, s5)
      | Inr logits \<Rightarrow>
     (case argmax logits of
        Inl e \<Rightarrow> (Inl e, s5)
      | Inr predicted_class_idx \<Rightarrow>
     (case id2label (model s5) (int predicted_class_idx) of
        None \<Rightarrow> (Inl (KeyError (int predicted_class_idx)), s5)
      | Some predicted_class \<Rightarrow>
          (Inr [(''prediction'', predicted_class)], s5))))))))"

text \<open>
  \<open>predict\<close>, lines 28 to 51. The content-type test is outside the \<open>try\<close>: on \<open>None\<close>
  the attribute lookup \<open>startswith\<close> raises and nothing catches it.
\<close>

definition predict ::
  "'img pil \<Rightarrow> upload_file \<Rightarrow> nat \<Rightarrow> ('img, 'tensor, 'score::linorder) process \<Rightarrow>
   outcome \<times> ('img, 'tensor, 'score) process" where
  "predict lib file buffer_id s =
     (case content_type file of
        None \<Rightarrow>
          (Uncaught (AttributeError (quoted ''NoneType'' @ '' object has no attribute '' @ quoted ''startswith'')), s)
      | Some ct \<Rightarrow>
          if \<not> prefix ''image/'' ct
          then (HTTPException 400 ''File provided is not an image'', s)
          else
            (case try_block lib file buffer_id s of
               (Inr result, s') \<Rightarrow> (Return result, s')
             | (Inl e, s') \<Rightarrow> (HTTPException 500 (str e), s')))"

text \<open>\<open>root\<close>, lines 53 to 55.\<close>

definition root :: "('img, 'tensor, 'score) process \<Rightarrow> outcome \<times> ('img, 'tensor, 'score) process" where
  "root s = (Return [(''message'', ''Crop Disease Detection API is running!'')], s)"

subsection \<open>Stages of the pipeline\<close>

text \<open>
  When a stage of the \<open>try\<close> block raises: a stage is reached only when every stage before
  it has returned. Decoding is \<open>Image.open\<close> followed by \<open>convert\<close>, since PIL reads the
  pixel data only when the image is converted.
\<close>

datatype stage = Reading | Decoding | Preprocessing | Inference

inductive raises ::
  "'img pil \<Rightarrow> upload_file \<Rightarrow> nat \<Rightarrow> ('img, 'tensor, 'score) process \<Rightarrow> stage \<Rightarrow> exception \<Rightarrow> bool" where
  raises_read:
    "file_read file = Inl e \<Longrightarrow> raises lib file addr s Reading e"
| raises_open:
    "file_read file = Inr contents \<Longrightarrow> Image_open lib (BytesIO addr contents) = Inl e \<Longrightarrow>
     raises lib file addr s Decoding e"
| raises_convert:
    "file_read file = Inr contents \<Longrightarrow> Image_open lib (BytesIO addr contents) = Inr opened \<Longrightarrow>
     convert lib opened ''RGB'' = Inl e \<Longrightarrow> raises lib file addr s Decoding e"
| raises_feature_extractor:
    "file_read file = Inr contents \<Longrightarrow> Image_open lib (BytesIO addr contents) = Inr opened \<Longrightarrow>
     convert lib opened ''RGB'' = Inr rgb \<Longrightarrow> feature_extractor s rgb = Inl e \<Longrightarrow>
     raises lib file addr s Preprocessing e"
| raises_model:
    "file_read file = Inr contents \<Longrightarrow> Image_open lib (BytesIO addr contents) = Inr opened \<Longrightarrow>
     convert lib opened ''RGB'' = Inr rgb \<Longrightarrow> feature_extractor s rgb = Inr inputs \<Longrightarrow>
     forward (model s) inputs = Inl e \<Longrightarrow> raises lib file addr s Inference e"

subsection \<open>A small instance\<close>

text \<open>
  An instance to run the handlers on. An image is its mode and a number standing for its
  pixels; the decoder rejects the empty byte string, naming the buffer it was given, and
  \<open>convert\<close> changes the mode. The classifier has four classes and scores the second and
  the fourth highest.
\<close>

definition example_lib :: "(string \<times> nat) pil" where
  "example_lib =
     \<lparr>Image_open = (\<lambda>buffer.
        case buffer of
          BytesIO address contents \<Rightarrow>
            if contents = []
            then Inl (LibraryError
                   (''cannot identify image file <_io.BytesIO object at '' @ repr_nat address @ ''>''))
            else Inr (''L'', length contents)),
      convert = (\<lambda>img mode. Inr (mode, snd img))\<rparr>"

definition example_classifier :: "(nat, int) classifier" where
  "example_classifier =
     \<lparr>forward = (\<lambda>inputs. Inr [1, 7, 3, 7]),
      id2label = map_of [(0, ''LABEL_0''), (1, ''LABEL_1''), (2, ''LABEL_2''), (3, ''LABEL_3'')]\<rparr>"

definition example_process :: "(string \<times> nat, nat, int) process" where
  "example_process =
     \<lparr>feature_extractor = (\<lambda>img. Inr (snd img)),
      model = example_classifier,
      stdout = [''Loading model...'', ''Model loaded successfully!''],
      calls = []\<rparr>"

text \<open>The same process with a classifier whose forward pass raises.\<close>

definition failing_process :: "(string \<times> nat, nat, int) process" where
  "failing_process =
     example_process\<lparr>model :=
       example_classifier\<lparr>forward := (\<lambda>inputs. Inl (LibraryError ''out of memory''))\<rparr>\<rparr>"

definition png_upload :: upload_file where
  "png_upload = \<lparr>content_type = Some ''image/png'', file_read = Inr [137, 80, 78, 71]\<rparr>"

definition empty_upload :: upload_file where
  "empty_upload = \<lparr>content_type = Some ''image/png'', file_read = Inr []\<rparr>"

definition text_upload :: upload_file where
  "text_upload = \<lparr>content_type = Some ''text/plain'', file_read = Inr [104, 105]\<rparr>"

definition untyped_upload :: upload_file where
  "untyped_upload = \<lparr>content_type = None, file_read = Inr [137, 80, 78, 71]\<rparr>"

code_pred raises .

section \<open>Properties\<close>

subsection \<open>Arg-max returns the first index of the maximum\<close>

text \<open>
  The scan, started after a prefix \<open>pre\<close> whose first maximum is at \<open>besti\<close>, returns the
  first index of the maximum of the whole list.
\<close>

lemma argmax_from_scan:
  assumes "i = length pre" and "besti < i" and "pre ! besti = best"
    and "\<forall>j<i. pre ! j \<le> best" and "\<forall>j<besti. pre ! j < best"
  shows "argmax_from best besti i xs < length (pre @ xs)
       \<and> (\<forall>j<length (pre @ xs). (pre @ xs) ! j \<le> (pre @ xs) ! argmax_from best besti i xs)
       \<and> (\<forall>j<argmax_from best besti i xs. (pre @ xs) ! j < (pre @ xs) ! argmax_from best besti i xs)"
  using assms
proof (induction xs arbitrary: pre best besti i)
  case Nil
  then show ?case by simp
next
  case (Cons x xs)
  show ?case
  proof (cases "best < x")
    case True
    have a: "Suc i = length (pre @ [x])" using Cons.prems by simp
    have b: "i < Suc i" by simp
    have c: "(pre @ [x]) ! i = x" using Cons.prems by simp
    have d: "\<forall>j<Suc i. (pre @ [x]) ! j \<le> x"
      using Cons.prems True by (auto simp: nth_append less_Suc_eq)
    have e: "\<forall>j<i. (pre @ [x]) ! j < x"
      using Cons.prems True by (auto simp: nth_append)
    from Cons.IH [OF a b c d e] True show ?thesis by simp
  next
    case False
    have a: "Suc i = length (pre @ [x])" using Cons.prems by simp
    have b: "besti < Suc i" using Cons.prems by simp
    have c: "(pre @ [x]) ! besti = best" using Cons.prems by (simp add: nth_append)
    have d: "\<forall>j<Suc i. (pre @ [x]) ! j \<le> best"
      using Cons.prems False by (auto simp: nth_append less_Suc_eq)
    have e: "\<forall>j<besti. (pre @ [x]) ! j < best"
      using Cons.prems by (auto simp: nth_append)
    from Cons.IH [OF a b c d e] False show ?thesis by simp
  qed
qed

lemma argmax_first_maximum:
  assumes "argmax logits = Inr k"
  shows "k < length logits \<and> (\<forall>j<length logits. logits ! j \<le> logits ! k)
       \<and> (\<forall>j<k. logits ! j < logits ! k)"
proof (cases logits)
  case Nil
  with assms show ?thesis by (simp add: argmax_def)
next
  case (Cons x xs)
  with assms have k: "k = argmax_from x 0 1 xs" by (simp add: argmax_def)
  have "argmax_from x 0 1 xs < length ([x] @ xs)
       \<and> (\<forall>j<length ([x] @ xs). ([x] @ xs) ! j \<le> ([x] @ xs) ! argmax_from x 0 1 xs)
       \<and> (\<forall>j<argmax_from x 0 1 xs. ([x] @ xs) ! j < ([x] @ xs) ! argmax_from x 0 1 xs)"
    by (rule argmax_from_scan) simp_all
  with k Cons show ?thesis by simp
qed

lemma argmax_nonempty: "logits \<noteq> [] \<Longrightarrow> \<exists>k. argmax logits = Inr k"
  by (cases logits) (simp_all add: argmax_def)

subsection \<open>What the try block does to the process, and when it returns or raises\<close>

lemma try_block_frame:
  "\<exists>cs. snd (try_block lib file addr s) = s\<lparr>calls := calls s @ cs\<rparr>
      \<and> set cs \<subseteq> {File_read, Image_open_call, Convert_call ''RGB'',
                   Feature_extractor_call, Model_call}"
  by (auto simp: try_block_def called_def Let_def split: sum.splits option.splits)

lemma try_block_success:
  assumes "fst (try_block lib file addr s) = Inr result"
  shows "\<exists>contents opened rgb inputs logits k label.
           file_read file = Inr contents \<and> Image_open lib (BytesIO addr contents) = Inr opened
         \<and> convert lib opened ''RGB'' = Inr rgb \<and> feature_extractor s rgb = Inr inputs
         \<and> forward (model s) inputs = Inr logits \<and> argmax logits = Inr k
         \<and> id2label (model s) (int k) = Some label \<and> result = [(''prediction'', label)]"
  using assms
  by (auto simp: try_block_def called_def Let_def split: sum.splits option.splits)

lemma try_block_raises:
  assumes "raises lib file addr s stage e"
  shows "fst (try_block lib file addr s) = Inl e"
  using assms
  by (cases rule: raises.cases) (simp_all add: try_block_def called_def Let_def)

lemma predict_image:
  assumes "content_type file = Some ct" and "prefix ''image/'' ct"
  shows "predict lib file addr s =
           (case fst (try_block lib file addr s) of
              Inr result \<Rightarrow> Return result
            | Inl e \<Rightarrow> HTTPException 500 (str e),
            snd (try_block lib file addr s))"
  using assms
  by (cases "try_block lib file addr s") (simp add: predict_def split: sum.splits)

lemma predict_frame:
  "\<exists>cs. snd (predict lib file addr s) = s\<lparr>calls := calls s @ cs\<rparr>
      \<and> set cs \<subseteq> {File_read, Image_open_call, Convert_call ''RGB'',
                   Feature_extractor_call, Model_call}"
proof (cases "content_type file")
  case None
  then show ?thesis by (auto simp: predict_def intro!: exI [of _ "[]"])
next
  case (Some ct)
  show ?thesis
  proof (cases "prefix ''image/'' ct")
    case False
    with Some show ?thesis by (auto simp: predict_def intro!: exI [of _ "[]"])
  next
    case True
    with Some have "snd (predict lib file addr s) = snd (try_block lib file addr s)"
      by (simp add: predict_image)
    with try_block_frame [of lib "file" addr s] show ?thesis by simp
  qed
qed

subsection \<open>Requests that are not images\<close>

text \<open>
  C1: when the declared content type does not start with \<open>image/\<close>, \<open>predict\<close> raises the
  \<open>HTTPException\<close> with status 400 and detail "File provided is not an image", sent as a
  400 with that detail, and the process is left as it was, its call log included: the file
  is not read and neither the preprocessing transform nor the model is called.
\<close>

theorem predict_rejects_non_image:
  assumes "content_type file = Some ct" and "\<not> prefix ''image/'' ct"
  shows "predict lib file addr s = (HTTPException 400 ''File provided is not an image'', s)
       \<and> respond (fst (predict lib file addr s)) =
           Response 400 (JSON [(''detail'', ''File provided is not an image'')])
       \<and> calls (snd (predict lib file addr s)) = calls s"
  using assms by (simp add: predict_def)

theorem predict_rejects_non_image_witness:
  "content_type text_upload = Some ''text/plain'' \<and> \<not> prefix ''image/'' ''text/plain''
   \<and> predict example_lib text_upload 140 example_process =
       (HTTPException 400 ''File provided is not an image'', example_process)
   \<and> respond (fst (predict example_lib text_upload 140 example_process)) =
       Response 400 (JSON [(''detail'', ''File provided is not an image'')])
   \<and> calls (snd (predict example_lib text_upload 140 example_process)) = []"
proof -
  have a: "content_type text_upload = Some ''text/plain''" by (simp add: text_upload_def)
  have b: "\<not> prefix ''image/'' ''text/plain''" by simp
  have c: "calls example_process = []" by (simp add: example_process_def)
  from predict_rejects_non_image [OF a b, where lib = example_lib and addr = 140 and s = example_process] a b c
  show ?thesis by simp
qed

text \<open>
  C10: when the upload declares no content type, the test \<open>file.content_type.startswith\<close>
  raises an \<open>AttributeError\<close> outside the \<open>try\<close> block. It escapes the handler, nothing is
  read or called, and what is sent is the server's plain 500: neither the 400 with the
  detail "File provided is not an image" nor a 500 with a JSON detail.
\<close>

theorem predict_without_content_type:
  assumes "content_type file = None"
  shows "predict lib file addr s =
           (Uncaught (AttributeError
              (quoted ''NoneType'' @ '' object has no attribute '' @ quoted ''startswith'')), s)
       \<and> respond (fst (predict lib file addr s)) = Response 500 (PlainText ''Internal Server Error'')
       \<and> respond (fst (predict lib file addr s)) \<noteq>
           Response 400 (JSON [(''detail'', ''File provided is not an image'')])
       \<and> respond (fst (predict lib file addr s)) \<noteq> Response 500 (JSON [(''detail'', detail)])"
  using assms by (simp add: predict_def)

theorem predict_without_content_type_witness:
  "content_type untyped_upload = None
   \<and> predict example_lib untyped_upload 140 example_process =
       (Uncaught (AttributeError
          (quoted ''NoneType'' @ '' object has no attribute '' @ quoted ''startswith'')),
        example_process)
   \<and> respond (fst (predict example_lib untyped_upload 140 example_process)) =
       Response 500 (PlainText ''Internal Server Error'')"
proof -
  have a: "content_type untyped_upload = None" by (simp add: untyped_upload_def)
  from predict_without_content_type [OF a, where lib = example_lib and addr = 140 and s = example_process] a
  show ?thesis by simp
qed

subsection \<open>The root handler and the CORS configuration\<close>

text \<open>
  C7: \<open>root\<close> returns the fixed message in every state of the process and leaves the state
  as it was; it is sent as a 200 with the body
  \<open>{"message": "Crop Disease Detection API is running!"}\<close>.
\<close>

theorem root_is_running:
  "root s = (Return [(''message'', ''Crop Disease Detection API is running!'')], s)
   \<and> respond (fst (root s)) =
       Response 200 (JSON [(''message'', ''Crop Disease Detection API is running!'')])"
  by (simp add: root_def)




subsection \<open>The error boundary\<close>

text \<open>
  C2: for a request whose content type starts with \<open>image/\<close>, an exception raised while
  reading the file, decoding the image, preprocessing it or running the model is caught
  by the one \<open>except\<close> clause: whatever the stage, \<open>predict\<close> raises the \<open>HTTPException\<close>
  with status 500 whose detail is \<open>str\<close> of that exception, sent as a 500 with that detail.
\<close>

theorem predict_exception_boundary:
  assumes "content_type file = Some ct" and "prefix ''image/'' ct"
    and "raises lib file addr s stage e"
  shows "fst (predict lib file addr s) = HTTPException 500 (str e)
       \<and> respond (fst (predict lib file addr s)) = Response 500 (JSON [(''detail'', str e)])"
proof -
  have "fst (try_block lib file addr s) = Inl e"
    using assms(3) by (rule try_block_raises)
  with assms(1,2) show ?thesis by (simp add: predict_image)
qed

theorem predict_exception_boundary_witness:
  "raises example_lib empty_upload 140 example_process Decoding
     (LibraryError ''cannot identify image file <_io.BytesIO object at 140>'')
   \<and> respond (fst (predict example_lib empty_upload 140 example_process)) =
       Response 500 (JSON [(''detail'', ''cannot identify image file <_io.BytesIO object at 140>'')])
   \<and> raises example_lib png_upload 140 failing_process Inference (LibraryError ''out of memory'')
   \<and> respond (fst (predict example_lib png_upload 140 failing_process)) =
       Response 500 (JSON [(''detail'', ''out of memory'')])"
proof -
  have a: "content_type empty_upload = Some ''image/png''" by (simp add: empty_upload_def)
  have b: "content_type png_upload = Some ''image/png''" by (simp add: png_upload_def)
  have c: "prefix ''image/'' ''image/png''" by simp
  have d: "raises example_lib empty_upload 140 example_process Decoding
             (LibraryError ''cannot identify image file <_io.BytesIO object at 140>'')"
    by (rule raises_open [where contents = "[]"])
       (simp_all add: empty_upload_def example_lib_def repr_nat.simps digit_def)
  have e: "raises example_lib png_upload 140 failing_process Inference
             (LibraryError ''out of memory'')"
    by (rule raises_model [where contents = "[137, 80, 78, 71]" and opened = "(''L'', 4)"
          and rgb = "(''RGB'', 4)" and inputs = 4])
       (simp_all add: png_upload_def example_lib_def failing_process_def
          example_process_def example_classifier_def)
  from predict_exception_boundary [OF a c d] predict_exception_boundary [OF b c e] d e
  show ?thesis by simp
qed

subsection \<open>Successful predictions\<close>

text \<open>
  C3, as the code has it: when the content type starts with \<open>image/\<close>, the bytes decode,
  the image converts to RGB, and neither the preprocessing transform nor the forward pass
  raises, and the label table has an entry for the selected index, then the transform is
  applied to the RGB image, and \<open>predict\<close> returns \<open>{"prediction": label}\<close>, sent as a 200,
  where the label is in the range of the label table. The calls made are the read, the
  decoding, the conversion to RGB, the transform and the model, in this order.
\<close>

theorem predict_valid_image:
  assumes "content_type file = Some ct" and "prefix ''image/'' ct"
    and "file_read file = Inr contents"
    and "Image_open lib (BytesIO addr contents) = Inr opened"
    and "convert lib opened ''RGB'' = Inr rgb"
    and "feature_extractor s rgb = Inr inputs"
    and "forward (model s) inputs = Inr logits"
    and "argmax logits = Inr k"
    and "id2label (model s) (int k) = Some label"
  shows "fst (predict lib file addr s) = Return [(''prediction'', label)]
       \<and> respond (fst (predict lib file addr s)) = Response 200 (JSON [(''prediction'', label)])
       \<and> label \<in> ran (id2label (model s))
       \<and> calls (snd (predict lib file addr s)) =
           calls s @ [File_read, Image_open_call, Convert_call ''RGB'',
                      Feature_extractor_call, Model_call]"
proof -
  have t: "try_block lib file addr s =
             (Inr [(''prediction'', label)],
              s\<lparr>calls := calls s @ [File_read, Image_open_call, Convert_call ''RGB'',
                                    Feature_extractor_call, Model_call]\<rparr>)"
    using assms(3-9) by (simp add: try_block_def called_def)
  have r: "label \<in> ran (id2label (model s))"
    using assms(9) by (auto simp: ran_def)
  from t r assms(1,2) show ?thesis by (simp add: predict_image)
qed

theorem predict_valid_image_witness:
  "fst (predict example_lib png_upload 140 example_process) = Return [(''prediction'', ''LABEL_1'')]
   \<and> respond (fst (predict example_lib png_upload 140 example_process)) =
       Response 200 (JSON [(''prediction'', ''LABEL_1'')])
   \<and> ''LABEL_1'' \<in> ran (id2label (model example_process))
   \<and> calls (snd (predict example_lib png_upload 140 example_process)) =
       [File_read, Image_open_call, Convert_call ''RGB'', Feature_extractor_call, Model_call]"
proof -
  have a: "content_type png_upload = Some ''image/png''" by (simp add: png_upload_def)
  have b: "prefix ''image/'' ''image/png''" by simp
  have c: "file_read png_upload = Inr [137, 80, 78, 71]" by (simp add: png_upload_def)
  have d: "Image_open example_lib (BytesIO 140 [137, 80, 78, 71]) = Inr (''L'', 4)"
    by (simp add: example_lib_def)
  have e: "convert example_lib (''L'', 4) ''RGB'' = Inr (''RGB'', 4)"
    by (simp add: example_lib_def)
  have f: "feature_extractor example_process (''RGB'', 4) = Inr 4"
    by (simp add: example_process_def)
  have g: "forward (model example_process) 4 = Inr [1, 7, 3, 7]"
    by (simp add: example_process_def example_classifier_def)
  have h: "argmax [1, 7, 3, 7 :: int] = Inr 1" by (simp add: argmax_def)
  have i: "id2label (model example_process) (int 1) = Some ''LABEL_1''"
    by (simp add: example_process_def example_classifier_def)
  have j: "calls example_process = []" by (simp add: example_process_def)
  from predict_valid_image [OF a b c d e f g h i] j show ?thesis by simp
qed

text \<open>
  A file that decodes and converts is not enough for a 200: when the forward pass raises
  on it, the response is the 500 of the error boundary.
\<close>

theorem predict_valid_image_counterexample:
  "content_type png_upload = Some ''image/png''
   \<and> file_read png_upload = Inr [137, 80, 78, 71]
   \<and> Image_open example_lib (BytesIO 140 [137, 80, 78, 71]) = Inr (''L'', 4)
   \<and> convert example_lib (''L'', 4) ''RGB'' = Inr (''RGB'', 4)
   \<and> respond (fst (predict example_lib png_upload 140 failing_process)) =
       Response 500 (JSON [(''detail'', ''out of memory'')])"
  by (simp add: predict_def try_block_def called_def png_upload_def example_lib_def
      failing_process_def example_process_def example_classifier_def)

text \<open>
  C4: when \<open>predict\<close> returns, what it returns has exactly one entry, the label that the
  label table gives for an index \<open>k\<close> of the logits such that no score is greater than the
  score at \<open>k\<close> and every score before \<open>k\<close> is strictly smaller: the first index of the
  maximum score.
\<close>

theorem predict_label_of_first_maximum:
  assumes "fst (predict lib file addr s) = Return result"
  shows "\<exists>contents opened rgb inputs logits k label.
           file_read file = Inr contents \<and> Image_open lib (BytesIO addr contents) = Inr opened
         \<and> convert lib opened ''RGB'' = Inr rgb \<and> feature_extractor s rgb = Inr inputs
         \<and> forward (model s) inputs = Inr logits
         \<and> result = [(''prediction'', label)] \<and> id2label (model s) (int k) = Some label
         \<and> k < length logits \<and> (\<forall>j<length logits. logits ! j \<le> logits ! k)
         \<and> (\<forall>j<k. logits ! j < logits ! k)"
proof -
  from assms have "fst (try_block lib file addr s) = Inr result"
    by (cases "try_block lib file addr s")
       (auto simp: predict_def split: option.splits if_splits sum.splits)
  then obtain contents opened rgb inputs logits k label where
    stages: "file_read file = Inr contents" "Image_open lib (BytesIO addr contents) = Inr opened"
      "convert lib opened ''RGB'' = Inr rgb" "feature_extractor s rgb = Inr inputs"
      "forward (model s) inputs = Inr logits"
    and k: "argmax logits = Inr k"
    and label: "id2label (model s) (int k) = Some label" "result = [(''prediction'', label)]"
    using try_block_success by blast
  from k have "k < length logits \<and> (\<forall>j<length logits. logits ! j \<le> logits ! k)
       \<and> (\<forall>j<k. logits ! j < logits ! k)"
    by (rule argmax_first_maximum)
  with stages label show ?thesis by blast
qed

theorem predict_label_of_first_maximum_witness:
  "fst (predict example_lib png_upload 140 example_process) = Return [(''prediction'', ''LABEL_1'')]
   \<and> (\<exists>inputs logits k.
         forward (model example_process) inputs = Inr logits
       \<and> id2label (model example_process) (int k) = Some ''LABEL_1''
       \<and> k < length logits \<and> (\<forall>j<length logits. logits ! j \<le> logits ! k)
       \<and> (\<forall>j<k. logits ! j < logits ! k))"
proof -
  have a: "fst (predict example_lib png_upload 140 example_process) =
             Return [(''prediction'', ''LABEL_1'')]"
    by (simp add: predict_def try_block_def called_def argmax_def png_upload_def
        example_lib_def example_process_def example_classifier_def)
  from predict_label_of_first_maximum [OF a] a show ?thesis by blast
qed

subsection \<open>The process after a request\<close>

text \<open>
  C8: whatever the request and whatever its outcome, \<open>predict\<close> leaves the loaded
  preprocessing transform, the loaded model and the printed output as they were. All it
  adds to the process is its calls to the libraries (the read of the upload, the decoding,
  the conversion, the transform, the model).
\<close>

theorem predict_leaves_process_unchanged:
  "feature_extractor (snd (predict lib file addr s)) = feature_extractor s
   \<and> model (snd (predict lib file addr s)) = model s
   \<and> stdout (snd (predict lib file addr s)) = stdout s
   \<and> (\<exists>cs. calls (snd (predict lib file addr s)) = calls s @ cs
          \<and> set cs \<subseteq> {File_read, Image_open_call, Convert_call ''RGB'',
                       Feature_extractor_call, Model_call})"
proof -
  from predict_frame [of lib "file" addr s] obtain cs where
    "snd (predict lib file addr s) = s\<lparr>calls := calls s @ cs\<rparr>"
    and "set cs \<subseteq> {File_read, Image_open_call, Convert_call ''RGB'',
                    Feature_extractor_call, Model_call}"
    by blast
  then show ?thesis by auto
qed

end
